theory Spec2Isabelle
  imports Complex_Main
begin

section \<open>JavaScript numbers and the score helpers\<close>

text \<open>
  A JavaScript number is an IEEE binary64 value: NaN, one of the two infinities, or a
  finite value. Every finite binary64 value is a rational number, and the relational
  operators compare the denoted values exactly (no rounding is involved), so a finite
  number is modelled by the rational it denotes. The two zeros compare equal and are
  both \<open>Fin 0\<close>.
\<close>

datatype jsnum = NaN | NegInf | Fin rat | PosInf

text \<open>\<open>x >= y\<close> of the source: false as soon as one operand is NaN.\<close>

fun js_ge :: "jsnum \<Rightarrow> jsnum \<Rightarrow> bool" where
  "js_ge NaN _ = False"
| "js_ge _ NaN = False"
| "js_ge PosInf _ = True"
| "js_ge _ NegInf = True"
| "js_ge NegInf _ = False"
| "js_ge _ PosInf = False"
| "js_ge (Fin a) (Fin b) = (b \<le> a)"

text \<open>\<open>x < y\<close> and \<open>x > y\<close>, used to state the tiers; again false on NaN.\<close>

fun js_lt :: "jsnum \<Rightarrow> jsnum \<Rightarrow> bool" where
  "js_lt NaN _ = False"
| "js_lt _ NaN = False"
| "js_lt PosInf _ = False"
| "js_lt _ NegInf = False"
| "js_lt NegInf _ = True"
| "js_lt _ PosInf = True"
| "js_lt (Fin a) (Fin b) = (a < b)"

definition js_gt :: "jsnum \<Rightarrow> jsnum \<Rightarrow> bool" where
  "js_gt x y = js_lt y x"

text \<open>
  The literals \<open>0.8\<close> and \<open>0.6\<close> of the source denote the binary64 values nearest to
  4/5 and 3/5: \<open>0x3FE999999999999A\<close> and \<open>0x3FE3333333333333\<close>.
\<close>

definition lit_0_8 :: jsnum where
  "lit_0_8 = Fin (3602879701896397 / 4503599627370496)"

definition lit_0_6 :: jsnum where
  "lit_0_6 = Fin (5404319552844595 / 9007199254740992)"

text \<open>
  \<^verbatim>\<open>function getScoreColor(score) {
    if (score >= 0.8) return 'success';
    if (score >= 0.6) return 'warning';
    return 'secondary';
}\<close>
\<close>

definition getScoreColor :: "jsnum \<Rightarrow> string" where
  "getScoreColor score =
     (if js_ge score lit_0_8 then ''success''
      else if js_ge score lit_0_6 then ''warning''
      else ''secondary'')"

text \<open>
  \<open>formatScore\<close> multiplies in binary64 and prints the product with \<open>toFixed(1)\<close>;
  both steps round, so it has no counterpart over the exact values used here and is left
  out of the model.
\<close>

section \<open>Decoded JSON, thrown values, and the network\<close>

text \<open>
  A decoded JSON value. The program never computes with a decoded number: it only
  compares \<open>status\<close> with a string and concatenates \<open>error\<close> into a message, so a
  number is kept as its canonical rendering (what \<open>ToString\<close> gives for it).
  The same type serves for the arguments interpolated into a template literal.
\<close>

datatype json =
    JNull
  | JBool bool
  | JNum string
  | JStr string
  | JArr "json list"
  | JObj "(string \<times> json) list"

text \<open>What can be thrown or rejected: a property access on \<open>null\<close>/\<open>undefined\<close>,
  a failed \<open>fetch\<close>, a body that is not JSON.\<close>

datatype exn = TypeError | NetworkError | SyntaxError

fun join_comma :: "string list \<Rightarrow> string" where
  "join_comma [] = []"
| "join_comma [x] = x"
| "join_comma (x # y # ys) = x @ '','' @ join_comma (y # ys)"

text \<open>\<open>ToString\<close> on a decoded value; an array joins its elements with commas, a
  \<open>null\<close> element giving the empty string.\<close>

fun js_string :: "json \<Rightarrow> string" where
  "js_string JNull = ''null''"
| "js_string (JBool b) = (if b then ''true'' else ''false'')"
| "js_string (JNum s) = s"
| "js_string (JStr s) = s"
| "js_string (JArr xs) = join_comma (map (\<lambda>x. if x = JNull then [] else js_string x) xs)"
| "js_string (JObj kvs) = ''[object Object]''"

text \<open>A value that may be \<open>undefined\<close> is a \<open>json option\<close>.\<close>

definition string_of :: "json option \<Rightarrow> string" where
  "string_of v = (case v of None \<Rightarrow> ''undefined'' | Some x \<Rightarrow> js_string x)"

text \<open>
  \<open>data.status\<close> and \<open>data.error\<close>: reading a property of \<open>null\<close> throws; an object
  answers with its member (the last one of that name, as \<open>JSON.parse\<close> keeps it) or
  \<open>undefined\<close>; any other decoded value has no property of these two names.
\<close>

fun get_prop :: "json \<Rightarrow> string \<Rightarrow> exn + json option" where
  "get_prop JNull k = Inl TypeError"
| "get_prop (JObj kvs) k = Inr (map_of (rev kvs) k)"
| "get_prop _ k = Inr None"

text \<open>How a \<open>fetch\<close> ends: the promise rejects, or a response arrives whose body
  \<open>response.json()\<close> decodes or fails to decode.\<close>

datatype body = Undecodable | Decoded json

datatype fetch_outcome = Rejected | Responded body

definition decode :: "fetch_outcome \<Rightarrow> exn + json" where
  "decode out =
     (case out of
        Rejected \<Rightarrow> Inl NetworkError
      | Responded b \<Rightarrow> (case b of Undecodable \<Rightarrow> Inl SyntaxError | Decoded v \<Rightarrow> Inr v))"

section \<open>The document\<close>

text \<open>
  An element carries what the script reads or writes. \<open>eid\<close> is the element's identity
  (the object reference a handler holds); \<open>collapseInst\<close> says whether
  \<open>bootstrap.Collapse.getInstance\<close> finds an instance for it (otherwise it answers
  \<open>null\<close>). \<open>typeattr\<close> is the \<open>type\<close> attribute in lower case, \<open>idattr\<close> the
  \<open>id\<close> property (empty when absent).
\<close>

record element =
  eid :: nat
  tag :: string
  classes :: "string list"
  idattr :: string
  typeattr :: "string option"
  bsTarget :: "string option"
  dataStudent :: "string option"
  dataScholarship :: "string option"
  fieldName :: "string option"
  val :: string
  defaultVal :: string
  innerHTML :: string
  disabled :: bool
  collapseInst :: bool

datatype node = Node (el: element) (kids: "node list")

text \<open>Document order.\<close>

fun elems :: "node \<Rightarrow> element list" where
  "elems (Node e ks) = e # concat (map elems ks)"

definition handles :: "node \<Rightarrow> nat list" where
  "handles t = map eid (elems t)"

definition descendants :: "node \<Rightarrow> element list" where
  "descendants n = concat (map elems (kids n))"

fun first_some :: "'a option list \<Rightarrow> 'a option" where
  "first_some [] = None"
| "first_some (None # xs) = first_some xs"
| "first_some (Some x # xs) = Some x"

text \<open>The element a handle refers to, with its subtree.\<close>

fun subtree :: "nat \<Rightarrow> node \<Rightarrow> node option" where
  "subtree h (Node e ks) =
     (if eid e = h then Some (Node e ks) else first_some (map (subtree h) ks))"

fun first_nonempty :: "'a list list \<Rightarrow> 'a list" where
  "first_nonempty [] = []"
| "first_nonempty ([] # xs) = first_nonempty xs"
| "first_nonempty (x # xs) = x"

text \<open>The chain from an element up to the root, the element itself first; empty when
  the element is not in the document.\<close>

fun path :: "nat \<Rightarrow> node \<Rightarrow> element list" where
  "path h (Node e ks) =
     (if eid e = h then [e]
      else (case first_nonempty (map (path h) ks) of [] \<Rightarrow> [] | p \<Rightarrow> p @ [e]))"

text \<open>\<open>document.querySelector\<close>, \<open>document.querySelectorAll\<close>,
  \<open>element.querySelector\<close> (descendants only), \<open>element.closest\<close> (the element
  itself included) and \<open>element.parentNode\<close>, for a selector given as a predicate.\<close>

definition querySelector :: "(element \<Rightarrow> bool) \<Rightarrow> node \<Rightarrow> element option" where
  "querySelector sel t = find sel (elems t)"


definition querySelector_in :: "(element \<Rightarrow> bool) \<Rightarrow> nat \<Rightarrow> node \<Rightarrow> element option" where
  "querySelector_in sel h t =
     (case subtree h t of None \<Rightarrow> None | Some n \<Rightarrow> find sel (descendants n))"

definition closest :: "(element \<Rightarrow> bool) \<Rightarrow> nat \<Rightarrow> node \<Rightarrow> element option" where
  "closest sel h t = find sel (path h t)"


text \<open>The selectors of the script.\<close>

definition has_class :: "string \<Rightarrow> element \<Rightarrow> bool" where
  "has_class c e = (c \<in> set (classes e))"




definition is_collapse :: "element \<Rightarrow> bool" where
  "is_collapse e = has_class ''collapse'' e"


definition is_container :: "element \<Rightarrow> bool" where
  "is_container e = has_class ''container'' e"

definition is_submit_button :: "element \<Rightarrow> bool" where
  "is_submit_button e = (tag e = ''button'' \<and> typeattr e = Some ''submit'')"

text \<open>Writing through a handle: \<open>update_el\<close> changes the element's own fields,
  \<open>modify\<close> replaces the element together with its children.\<close>

fun map_el :: "(element \<Rightarrow> element) \<Rightarrow> node \<Rightarrow> node" where
  "map_el g (Node e ks) = Node (g e) (map (map_el g) ks)"

definition update_el :: "nat \<Rightarrow> (element \<Rightarrow> element) \<Rightarrow> node \<Rightarrow> node" where
  "update_el h g t = map_el (\<lambda>e. if eid e = h then g e else e) t"

fun modify :: "nat \<Rightarrow> (node \<Rightarrow> node) \<Rightarrow> node \<Rightarrow> node" where
  "modify h f (Node e ks) =
     (if eid e = h then f (Node e ks) else Node e (map (modify h f) ks))"

text \<open>
  \<open>element.innerHTML = s\<close> replaces the element's children by what the markup parses
  to. The markup is kept as the string; the two button labels and the alert template
  of this script create only an \<open>i\<close> element and a \<open>btn-close\<close> button of type
  \<open>button\<close>, which none of the selectors above matches, so the children are empty.
\<close>

definition set_innerHTML :: "nat \<Rightarrow> string \<Rightarrow> node \<Rightarrow> node" where
  "set_innerHTML h s t = modify h (\<lambda>n. Node ((el n)\<lparr>innerHTML := s\<rparr>) []) t"

definition set_disabled :: "nat \<Rightarrow> bool \<Rightarrow> node \<Rightarrow> node" where
  "set_disabled h b t = update_el h (\<lambda>e. e\<lparr>disabled := b\<rparr>) t"

text \<open>\<open>parent.insertBefore(a, parent.firstChild)\<close>: \<open>a\<close> becomes the first child,
  also when the parent has no child yet.\<close>

definition insert_first :: "nat \<Rightarrow> node \<Rightarrow> node \<Rightarrow> node" where
  "insert_first h a t = modify h (\<lambda>n. Node (el n) (a # kids n)) t"

text \<open>\<open>element.remove()\<close>.\<close>

fun remove :: "nat \<Rightarrow> node \<Rightarrow> node" where
  "remove h (Node e ks) = Node e (map (remove h) (filter (\<lambda>k. eid (el k) \<noteq> h) ks))"

text \<open>\<open>form.reset()\<close>: every control of the form goes back to its default value.\<close>

definition reset_control :: "element \<Rightarrow> element" where
  "reset_control e = e\<lparr>val := defaultVal e\<rparr>"

definition reset_form :: "nat \<Rightarrow> node \<Rightarrow> node" where
  "reset_form h t = modify h (\<lambda>n. Node (el n) (map (map_el reset_control) (kids n))) t"


section \<open>The page\<close>

record timer =
  due :: nat
  target :: nat

record request =
  http_method :: string
  url :: string
  payload :: "(string \<times> string) list"

text \<open>
  The page: the document, the next fresh element identity (\<open>createElement\<close>), the
  clock in milliseconds with the pending \<open>setTimeout\<close> callbacks, the requests issued
  so far and the console.
\<close>

record page =
  doc :: node
  fresh :: nat
  clock :: nat
  timers :: "timer list"
  requests :: "request list"
  console :: "(string \<times> exn) list"

text \<open>\<open>className\<close> is split at white space into the class list.\<close>

definition is_space :: "char \<Rightarrow> bool" where
  "is_space c = (c = CHR '' '' \<or> c = CHR 0x09 \<or> c = CHR 0x0A \<or> c = CHR 0x0C \<or> c = CHR 0x0D)"

fun split_ws :: "string \<Rightarrow> string \<Rightarrow> string list" where
  "split_ws w [] = (if w = [] then [] else [w])"
| "split_ws w (c # cs) =
     (if is_space c then (if w = [] then split_ws [] cs else w # split_ws [] cs)
      else split_ws (w @ [c]) cs)"

definition tokens :: "string \<Rightarrow> string list" where
  "tokens s = split_ws [] s"

text \<open>
  \<open>bootstrap.Collapse\<close>'s \<open>hide()\<close>, taken at its effect: the panel loses the class
  \<open>show\<close>.
\<close>

definition hide :: "nat \<Rightarrow> page \<Rightarrow> page" where
  "hide h p = p\<lparr>doc := update_el h (\<lambda>e. e\<lparr>classes := removeAll ''show'' (classes e)\<rparr>) (doc p)\<rparr>"

subsection \<open>showAlert\<close>

text \<open>
  \<^verbatim>\<open>function showAlert(message, type) {
    const alertDiv = document.createElement('div');
    alertDiv.className = `alert alert-${type} alert-dismissible fade show`;
    alertDiv.innerHTML = `
        ${message}
        <button type="button" class="btn-close" data-bs-dismiss="alert"></button>
    `;
    document.querySelector('.container').insertBefore(alertDiv,
        document.querySelector('.container').firstChild);
    setTimeout(() => {
        if (alertDiv.parentNode) {
            alertDiv.remove();
        }
    }, 5000);
}\<close>
  The message is taken to be text. When no element has the class \<open>container\<close>, the
  first \<open>querySelector\<close> answers \<open>null\<close> and reading \<open>insertBefore\<close> from it throws,
  before anything is inserted or scheduled.
\<close>

definition alert_element :: "nat \<Rightarrow> string \<Rightarrow> string \<Rightarrow> element" where
  \<open>alert_element h message type =
     \<lparr>eid = h, tag = ''div'',
      classes = tokens (''alert alert-'' @ type @ '' alert-dismissible fade show''),
      idattr = [], typeattr = None, bsTarget = None, dataStudent = None,
      dataScholarship = None, fieldName = None, val = [], defaultVal = [],
      innerHTML = ''\<newline>        '' @ message @
        ''\<newline>        <button type="button" class="btn-close" data-bs-dismiss="alert"></button>\<newline>    '',
      disabled = False, collapseInst = False\<rparr>\<close>

definition showAlert :: "string \<Rightarrow> string \<Rightarrow> page \<Rightarrow> exn option \<times> page" where
  "showAlert message type p =
     (let alertDiv = Node (alert_element (fresh p) message type) [];
          p1 = p\<lparr>fresh := Suc (fresh p)\<rparr>
      in case querySelector is_container (doc p1) of
           None \<Rightarrow> (Some TypeError, p1)
         | Some c \<Rightarrow>
             (None, p1\<lparr>doc := insert_first (eid c) alertDiv (doc p1),
                       timers := timers p1 @ [\<lparr>due = clock p1 + 5000, target = fresh p\<rparr>]\<rparr>))"



text \<open>The user dismisses an alert with its close button: Bootstrap removes it.\<close>

definition dismiss :: "nat \<Rightarrow> page \<Rightarrow> page" where
  "dismiss h p = p\<lparr>doc := remove h (doc p)\<rparr>"

subsection \<open>submitFeedback\<close>


definition on_data :: "json \<Rightarrow> nat \<Rightarrow> page \<Rightarrow> exn option \<times> page" where
  "on_data data formElement p =
     (case get_prop data ''status'' of
        Inl e \<Rightarrow> (Some e, p)
      | Inr status \<Rightarrow>
          if status = Some (JStr ''success'') then
            (case showAlert ''Thank you for your feedback!'' ''success'' p of
               (Some e, p1) \<Rightarrow> (Some e, p1)
             | (None, p1) \<Rightarrow>
                 (let p2 = p1\<lparr>doc := reset_form formElement (doc p1)\<rparr>
                  in case closest is_collapse formElement (doc p2) of
                       None \<Rightarrow> (None, p2)
                     | Some collapseElement \<Rightarrow>
                         if collapseInst collapseElement
                         then (None, hide (eid collapseElement) p2)
                         else (Some TypeError, p2)))
          else
            (case get_prop data ''error'' of
               Inl e \<Rightarrow> (Some e, p)
             | Inr err \<Rightarrow>
                 showAlert (''Error submitting feedback: '' @ string_of err) ''danger'' p))"

definition on_error :: "exn \<Rightarrow> page \<Rightarrow> exn option \<times> page" where
  "on_error error p =
     showAlert ''Error submitting feedback. Please try again.'' ''danger''
       (p\<lparr>console := console p @ [(''Error:'', error)]\<rparr>)"

definition submit_label :: string where
  \<open>submit_label = ''<i class="fas fa-check"></i> Submit''\<close>

definition on_finally :: "nat \<Rightarrow> page \<Rightarrow> page" where
  "on_finally formElement p =
     (case querySelector_in is_submit_button formElement (doc p) of
        None \<Rightarrow> p
      | Some submitBtn \<Rightarrow>
          p\<lparr>doc := set_disabled (eid submitBtn) False
                     (set_innerHTML (eid submitBtn) submit_label (doc p))\<rparr>)"

text \<open>The chain up to \<open>.catch\<close>: the terminal state of the interface.\<close>

definition respond :: "fetch_outcome \<Rightarrow> nat \<Rightarrow> page \<Rightarrow> exn option \<times> page" where
  "respond out formElement p =
     (case (case decode out of
              Inl e \<Rightarrow> (Some e, p)
            | Inr data \<Rightarrow> on_data data formElement p) of
        (None, p1) \<Rightarrow> (None, p1)
      | (Some e, p1) \<Rightarrow> on_error e p1)"

text \<open>The whole chain; \<open>.finally\<close> runs in either case and passes a rejection on.\<close>

definition submitFeedback_settled :: "fetch_outcome \<Rightarrow> nat \<Rightarrow> page \<Rightarrow> exn option \<times> page" where
  "submitFeedback_settled out formElement p =
     (case respond out formElement p of (r, p1) \<Rightarrow> (r, on_finally formElement p1))"

subsection \<open>The listeners registered when the page has loaded\<close>








subsection \<open>ScholarshipAPI.getRecommendations\<close>


section \<open>Well-formed pages and sample pages\<close>

text \<open>
  Handles stand for object references: in a page that a browser can hold, different
  elements have different handles, and the next fresh handle lies above all of them.
\<close>

definition page_ok :: "page \<Rightarrow> bool" where
  "page_ok p = (distinct (handles (doc p)) \<and> (\<forall>h\<in>set (handles (doc p)). h < fresh p))"

text \<open>An element with nothing set but its identity, tag and classes.\<close>

definition plain :: "nat \<Rightarrow> string \<Rightarrow> string list \<Rightarrow> element" where
  "plain h t cs =
     \<lparr>eid = h, tag = t, classes = cs, idattr = [], typeattr = None, bsTarget = None,
      dataStudent = None, dataScholarship = None, fieldName = None, val = [],
      defaultVal = [], innerHTML = [], disabled = False, collapseInst = False\<rparr>"


definition sample_button :: element where
  "sample_button = (plain 5 ''button'' [''btn''])\<lparr>typeattr := Some ''submit'', innerHTML := ''Send''\<rparr>"

definition sample_form :: node where
  "sample_form =
     Node ((plain 3 ''form'' [''feedback-form''])
             \<lparr>dataStudent := Some ''42'', dataScholarship := Some ''7''\<rparr>)
       [Node ((plain 4 ''textarea'' [])\<lparr>fieldName := Some ''comment'', val := ''great''\<rparr>) [],
        Node sample_button []]"




text \<open>A form that is not a feedback form, with its submit button.\<close>

definition search_button :: element where
  "search_button = (plain 7 ''button'' [])\<lparr>typeattr := Some ''submit'', innerHTML := ''Search''\<rparr>"

definition search_form :: node where
  "search_form = Node (plain 6 ''form'' []) [Node search_button []]"

text \<open>A page without any element of class \<open>container\<close>.\<close>

definition bare_page :: page where
  "bare_page =
     \<lparr>doc = Node (plain 0 ''html'' []) [Node (plain 1 ''main'' []) [sample_form, search_form]],
      fresh = 8, clock = 0, timers = [], requests = [], console = []\<rparr>"

section \<open>Notions used to state the properties\<close>



text \<open>What \<open>hide\<close> does to the panel's element.\<close>

definition strip_show :: "element \<Rightarrow> element" where
  "strip_show e = e\<lparr>classes := removeAll ''show'' (classes e)\<rparr>"



section \<open>Properties of the score helpers\<close>

lemma js_ge_lit_trans: "js_ge s lit_0_8 \<Longrightarrow> js_ge s lit_0_6"
  by (cases s) (simp_all add: lit_0_8_def lit_0_6_def)

lemma js_lt_iff_not_ge: "s \<noteq> NaN \<Longrightarrow> js_lt s (Fin b) \<longleftrightarrow> \<not> js_ge s (Fin b)"
  by (cases s) auto

text \<open>
  C4. For every score \<open>s\<close> (any number that is not NaN, the unit interval included),
  \<open>getScoreColor s\<close> is \<open>success\<close> iff \<open>s >= 0.8\<close>, \<open>warning\<close> iff
  \<open>0.6 <= s < 0.8\<close>, and \<open>secondary\<close> iff \<open>s < 0.6\<close>; the lower boundary of each
  tier belongs to the tier.
\<close>

theorem getScoreColor_tiers:
  assumes "s \<noteq> NaN"
  shows "(getScoreColor s = ''success'' \<longleftrightarrow> js_ge s lit_0_8)
       \<and> (getScoreColor s = ''warning'' \<longleftrightarrow> js_ge s lit_0_6 \<and> js_lt s lit_0_8)
       \<and> (getScoreColor s = ''secondary'' \<longleftrightarrow> js_lt s lit_0_6)
       \<and> getScoreColor lit_0_8 = ''success''
       \<and> getScoreColor lit_0_6 = ''warning''"
proof -
  have lt8: "js_lt s lit_0_8 \<longleftrightarrow> \<not> js_ge s lit_0_8"
    using assms by (simp add: lit_0_8_def js_lt_iff_not_ge)
  have lt6: "js_lt s lit_0_6 \<longleftrightarrow> \<not> js_ge s lit_0_6"
    using assms by (simp add: lit_0_6_def js_lt_iff_not_ge)
  have b8: "getScoreColor lit_0_8 = ''success''"
    by (simp add: getScoreColor_def lit_0_8_def)
  have b6: "getScoreColor lit_0_6 = ''warning''"
    by (simp add: getScoreColor_def lit_0_8_def lit_0_6_def)
  show ?thesis
    using js_ge_lit_trans [of s] b8 b6 by (auto simp: getScoreColor_def lt8 lt6)
qed

theorem getScoreColor_tiers_witness:
  "getScoreColor (Fin (7 / 10)) = ''warning''
   \<and> js_ge (Fin (7 / 10)) lit_0_6 \<and> js_lt (Fin (7 / 10)) lit_0_8"
  using getScoreColor_tiers [of "Fin (7 / 10)"]
  by (simp add: lit_0_8_def lit_0_6_def)

text \<open>
  C9. \<open>getScoreColor\<close> is total on all numbers: above 1 it answers \<open>success\<close>, below 0
  it answers \<open>secondary\<close>, on NaN (both comparisons false) it answers \<open>secondary\<close>, and
  it has no fourth answer and no failing branch.
\<close>

theorem getScoreColor_total:
  "(js_gt s (Fin 1) \<longrightarrow> getScoreColor s = ''success'')
   \<and> (js_lt s (Fin 0) \<longrightarrow> getScoreColor s = ''secondary'')
   \<and> getScoreColor NaN = ''secondary''
   \<and> getScoreColor s \<in> {''success'', ''warning'', ''secondary''}"
  by (cases s) (auto simp: getScoreColor_def js_gt_def lit_0_8_def lit_0_6_def)

theorem getScoreColor_total_witness:
  "js_gt (Fin 2) (Fin 1) \<and> getScoreColor (Fin 2) = ''success''
   \<and> js_lt (Fin (- 1)) (Fin 0) \<and> getScoreColor (Fin (- 1)) = ''secondary''
   \<and> getScoreColor PosInf = ''success'' \<and> getScoreColor NegInf = ''secondary''"
  using getScoreColor_total [of "Fin 2"] getScoreColor_total [of "Fin (- 1)"]
    getScoreColor_total [of PosInf] getScoreColor_total [of NegInf]
  by (simp add: js_gt_def getScoreColor_def lit_0_8_def lit_0_6_def)

section \<open>The document: basic facts\<close>




lemma handles_Node: "handles (Node e ks) = eid e # concat (map handles ks)"
  by (simp add: handles_def [abs_def] map_concat comp_def)

lemma first_some_None_iff: "first_some xs = None \<longleftrightarrow> (\<forall>x\<in>set xs. x = None)"
  by (induction xs rule: first_some.induct) auto

lemma subtree_None_iff: "subtree h t = None \<longleftrightarrow> h \<notin> set (handles t)"
  by (induction t) (auto simp: handles_Node first_some_None_iff)





lemma first_nonempty_Nil_iff: "first_nonempty xs = [] \<longleftrightarrow> (\<forall>x\<in>set xs. x = [])"
  by (induction xs rule: first_nonempty.induct) auto

lemma path_Nil_iff: "path h t = [] \<longleftrightarrow> h \<notin> set (handles t)"
proof (induction t)
  case (Node e ks)
  have "first_nonempty (map (path h) ks) = [] \<longleftrightarrow> h \<notin> set (concat (map handles ks))"
    using Node.IH by (simp add: first_nonempty_Nil_iff)
  then show ?case
    by (cases "first_nonempty (map (path h) ks)") (simp_all add: handles_Node)
qed
















section \<open>Alerts\<close>



text \<open>
  C10. When no element has the class \<open>container\<close>, \<open>showAlert\<close> throws for every
  message and inserts nothing; every path of the feedback chain (success, application
  error, transport error) then ends rejected, with the document as it was before the
  callbacks (up to what \<open>.finally\<close> does to the submit button) and no timer scheduled.
\<close>

theorem no_container_no_alert:
  assumes "querySelector is_container (doc p) = None"
  shows "showAlert message type p = (Some TypeError, p\<lparr>fresh := Suc (fresh p)\<rparr>)
       \<and> fst (respond out formElement p) = Some TypeError
       \<and> doc (snd (respond out formElement p)) = doc p
       \<and> timers (snd (respond out formElement p)) = timers p
       \<and> fst (submitFeedback_settled out formElement p) = Some TypeError
       \<and> doc (snd (submitFeedback_settled out formElement p)) = doc (on_finally formElement p)"
proof -
  have sa: "showAlert m ty q = (Some TypeError, q\<lparr>fresh := Suc (fresh q)\<rparr>)"
    if "doc q = doc p" for m ty q
    using assms that by (simp add: showAlert_def)
  have oe: "on_error e q = (Some TypeError, q\<lparr>console := console q @ [(''Error:'', e)], fresh := Suc (fresh q)\<rparr>)"
    if "doc q = doc p" for e q
    using that by (simp add: on_error_def sa)
  have od: "\<exists>e q. on_data data formElement p = (Some e, q) \<and> doc q = doc p \<and> timers q = timers p" for data
    by (cases "get_prop data ''status''"; cases "get_prop data ''error''")
       (auto simp: on_data_def sa)
  have r: "\<exists>q. respond out formElement p = (Some TypeError, q) \<and> doc q = doc p \<and> timers q = timers p"
  proof (cases "decode out")
    case (Inl e)
    then show ?thesis by (simp add: respond_def oe)
  next
    case (Inr data)
    from od [of data] obtain e q where "on_data data formElement p = (Some e, q)"
      "doc q = doc p" "timers q = timers p" by blast
    with Inr show ?thesis by (simp add: respond_def oe)
  qed
  then obtain q where q: "respond out formElement p = (Some TypeError, q)" "doc q = doc p"
    "timers q = timers p" by blast
  have "doc (on_finally formElement q) = doc (on_finally formElement p)"
    using q(2) by (simp add: on_finally_def split: option.splits)
  with q sa [of p message type] show ?thesis by (simp add: submitFeedback_settled_def)
qed

theorem no_container_no_alert_witness:
  "querySelector is_container (doc bare_page) = None
   \<and> fst (submitFeedback_settled (Responded (Decoded (JObj [(''status'', JStr ''success'')]))) 3 bare_page)
       = Some TypeError
   \<and> doc (snd (respond Rejected 3 bare_page)) = doc bare_page"
proof -
  have c: "querySelector is_container (doc bare_page) = None" by code_simp
  from no_container_no_alert [OF c] c show ?thesis by simp
qed

section \<open>The feedback toggles\<close>





section \<open>ScholarshipAPI\<close>



section \<open>The document: writing through handles\<close>

lemma handles_elem: "e \<in> set (elems t) \<Longrightarrow> eid e \<in> set (handles t)"
  by (simp add: handles_def)


lemma subtree_absent: "h \<notin> set (handles t) \<Longrightarrow> subtree h t = None"
  by (simp add: subtree_None_iff)







lemma first_some_absent:
  "h \<notin> set (concat (map handles ks)) \<Longrightarrow> first_some (map (subtree h) ks @ xs) = first_some xs"
  by (induction ks) (simp_all add: subtree_absent)























lemma page_ok_cong:
  "doc q = doc p \<Longrightarrow> fresh q = fresh p \<Longrightarrow> page_ok q = page_ok p"
  by (simp add: page_ok_def)










lemma path_absent: "h \<notin> set (handles t) \<Longrightarrow> path h t = []"
  by (simp add: path_Nil_iff)

lemma first_nonempty_absent:
  "h \<notin> set (concat (map handles ks)) \<Longrightarrow> first_nonempty (map (path h) ks @ xs) = first_nonempty xs"
  by (induction ks) (simp_all add: path_absent)




















lemma strip_show_simps [simp]:
  "eid (strip_show e) = eid e" "val (strip_show e) = val e"
  "defaultVal (strip_show e) = defaultVal e" "is_collapse (strip_show e) = is_collapse e"
  "\<not> has_class ''show'' (strip_show e)"
  by (simp_all add: strip_show_def is_collapse_def has_class_def)

lemma reset_control_simps [simp]:
  "eid (reset_control e) = eid e" "val (reset_control e) = defaultVal e"
  "defaultVal (reset_control e) = defaultVal e"
  by (simp_all add: reset_control_def)





















section \<open>Form submission\<close>









end
